theory Spec2Isabelle
  imports Complex_Main "HOL-Library.Word"
begin

section \<open>The playback clock-recovery engine of client/src/audio.c\<close>

text \<open>
  The development embeds \<^verbatim>\<open>client/src/audio.c\<close>. The file-scope variable
  \<^verbatim>\<open>audio\<close> is a record that every function takes and returns. C \<^verbatim>\<open>int\<close>,
  \<^verbatim>\<open>int64_t\<close> and \<^verbatim>\<open>size_t\<close> values are \<open>int\<close> and \<open>nat\<close>: the
  quantities stay far below the 32 and 64 bit limits, and signed overflow is undefined in C.
  Pointers are options (\<open>None\<close> is the null pointer). What C leaves undefined or what
  stops the process is a \<open>failure\<close>, the left summand of every result.
\<close>

subsection \<open>Double precision arithmetic\<close>

text \<open>
  Every \<^verbatim>\<open>double\<close> operation the file uses is a field of the record \<open>'d fpu\<close>, and
  the model is parametric in it: no property of the theory depends on how the machine rounds.
  \<open>i2d\<close> is the conversion of an integer to \<^verbatim>\<open>double\<close>, \<open>flit\<close> the value of a decimal
  literal, \<open>round_int\<close> the libm \<^verbatim>\<open>round\<close> followed by the conversion to \<^verbatim>\<open>int\<close>,
  \<open>d2f\<close> the conversion to \<^verbatim>\<open>float\<close>.
\<close>

record 'd fpu =
  i2d :: "int \<Rightarrow> 'd"
  flit :: "real \<Rightarrow> 'd"
  M_PI :: 'd
  M_SQRT2 :: 'd
  fadd :: "'d \<Rightarrow> 'd \<Rightarrow> 'd"
  fsub :: "'d \<Rightarrow> 'd \<Rightarrow> 'd"
  fmul :: "'d \<Rightarrow> 'd \<Rightarrow> 'd"
  fdiv :: "'d \<Rightarrow> 'd \<Rightarrow> 'd"
  fneg :: "'d \<Rightarrow> 'd"
  fabs :: "'d \<Rightarrow> 'd"
  fge :: "'d \<Rightarrow> 'd \<Rightarrow> bool"
  llrint :: "'d \<Rightarrow> int"
  round_int :: "'d \<Rightarrow> int"
  d2f :: "'d \<Rightarrow> 'd"

text \<open>
  The exact interpretation over the reals: no rounding, \<^verbatim>\<open>llrint\<close> rounds halves to
  even (the default rounding mode), \<^verbatim>\<open>round\<close> rounds halves away from zero. It is used
  to run the model on concrete inputs whose values a \<^verbatim>\<open>double\<close> represents exactly.
\<close>

definition rint_even :: "real \<Rightarrow> int" where
  "rint_even x =
     (let f = \<lfloor>x\<rfloor> in
      if x - of_int f < 1 / 2 then f
      else if 1 / 2 < x - of_int f then f + 1
      else if even f then f else f + 1)"

definition round_away :: "real \<Rightarrow> int" where
  "round_away x = (if 0 \<le> x then \<lfloor>x + 1 / 2\<rfloor> else - \<lfloor>- x + 1 / 2\<rfloor>)"

definition real_fpu :: "real fpu" where
  "real_fpu =
     \<lparr> i2d = of_int, flit = (\<lambda>x. x), M_PI = pi, M_SQRT2 = sqrt 2,
       fadd = (+), fsub = (-), fmul = (*), fdiv = (/), fneg = uminus, fabs = abs,
       fge = (\<lambda>x y. y \<le> x), llrint = rint_even, round_int = round_away,
       d2f = (\<lambda>x. x) \<rparr>"

subsection \<open>Data model\<close>

datatype failure =
    NullPointer        \<comment> \<open>a null pointer is dereferenced or called\<close>
  | DivByZero          \<comment> \<open>integer division by zero\<close>
  | AssertFailed       \<comment> \<open>a \<^verbatim>\<open>DEBUG_ASSERT\<close> does not hold\<close>
  | OutOfBounds        \<comment> \<open>a read beyond the end of an argument array\<close>
  | ResamplerStalled   \<comment> \<open>the resampler loop has not returned\<close>

datatype StreamState =
    STREAM_STATE_STOP
  | STREAM_STATE_SETUP
  | STREAM_STATE_RUN
  | STREAM_STATE_DRAIN

definition STREAM_ACTIVE :: "StreamState \<Rightarrow> bool" where
  "STREAM_ACTIVE state = (state = STREAM_STATE_SETUP \<or> state = STREAM_STATE_RUN)"

record 'd PlaybackDeviceData =
  periodFrames :: int
  periodSec :: 'd
  nextTime :: int
  nextPosition :: int
  b :: 'd
  c :: 'd

text \<open>
  \<^verbatim>\<open>PlaybackSpiceData\<close> repeats the six fields of \<^verbatim>\<open>PlaybackDeviceData\<close> under the
  same names, so it is the extension of that record by its other fields. The two scratch
  buffers are their sizes in bytes, the resampler handle is \<open>()\<close>.
\<close>

record 'd PlaybackSpiceData = "'d PlaybackDeviceData" +
  framesIn :: "int option"
  framesOut :: "int option"
  framesOutSize :: int
  devPeriodFrames :: int
  devLastTime :: int
  devNextTime :: int
  devLastPosition :: int
  devNextPosition :: int
  offsetError :: 'd
  offsetErrorIntegral :: 'd
  ratioIntegral :: 'd
  src :: "unit option"

datatype PlaybackDeviceTick =
  Tick (tick_periodFrames: int) (tick_nextTime: int) (tick_nextPosition: int)

definition INT64_MIN :: int where
  "INT64_MIN = - (2 ^ 63)"

text \<open>
  The optional callbacks of \<^verbatim>\<open>struct LG_AudioDevOps\<close> that the file tests or calls:
  a field is true when the callback is not null. \<^verbatim>\<open>playback.setup\<close>,
  \<^verbatim>\<open>playback.stop\<close>, \<^verbatim>\<open>record.stop\<close> and \<^verbatim>\<open>free\<close> are always there.
\<close>

record LG_AudioDevOps =
  has_playback_start :: bool
  has_playback_volume :: bool
  has_playback_mute :: bool
  has_playback_latency :: bool
  has_record_start :: bool
  has_record_volume :: bool
  has_record_mute :: bool

text \<open>The calls the engine makes to its collaborators, in the order it makes them.\<close>

datatype 'd event =
    PlaybackSetup int int
  | PlaybackStart
  | PlaybackStop
  | PlaybackVolume int "16 word list"
  | PlaybackMute bool
  | RecordStart int int
  | RecordStop
  | RecordVolume int "16 word list"
  | RecordMute bool
  | SrcNew int
  | SrcDelete
  | SrcProcess int int int 'd
      \<comment> \<open>input offset in frames, \<^verbatim>\<open>input_frames\<close>, \<^verbatim>\<open>output_frames\<close>, \<^verbatim>\<open>src_ratio\<close>\<close>
  | RegisterGraph
  | UnregisterGraph
  | InvalidateGraph
  | WriteAudio int
  | DevFree

subsection \<open>Ring buffers\<close>

text \<open>
  Modelled from the spec: \<^verbatim>\<open>common/ringbuffer.c\<close> is not among the sources. The coupling
  buffer is "an unbounded queue of frames" in which the producer appends and the consumer
  consumes, with a null append (silence) and a null consume (discard). Its state is the
  list of the operations applied to it, each with its pointer argument (\<open>None\<close> for null)
  and its frame count; the frames it holds are those appended less those consumed. The
  samples themselves are not modelled.
\<close>

datatype rb_op =
    Append "unit option" int
  | Consume "unit option" int

type_synonym RingBuffer = "rb_op list"

fun rb_frames :: "rb_op \<Rightarrow> int" where
  "rb_frames (Append p n) = n"
| "rb_frames (Consume p n) = - n"

definition ringbuffer_getCount :: "RingBuffer \<Rightarrow> int" where
  "ringbuffer_getCount rb = sum_list (map rb_frames rb)"

definition ringbuffer_append :: "RingBuffer \<Rightarrow> unit option \<Rightarrow> int \<Rightarrow> RingBuffer" where
  "ringbuffer_append rb values n = rb @ [Append values n]"

definition ringbuffer_consume :: "RingBuffer \<Rightarrow> unit option \<Rightarrow> int \<Rightarrow> RingBuffer" where
  "ringbuffer_consume rb dst n = rb @ [Consume dst n]"

text \<open>
  Modelled from the spec: the tick queue is a "fixed 16-slot SPSC queue"; the spec leaves
  the overflow policy open, and here a tick pushed on a full queue is lost. The
  visualisation ring holds the last 1200 latency values.
\<close>

definition tick_append :: "PlaybackDeviceTick list \<Rightarrow> PlaybackDeviceTick \<Rightarrow> PlaybackDeviceTick list" where
  "tick_append q t = (if length q < 16 then q @ [t] else q)"

definition ringbuffer_push :: "'a list \<Rightarrow> 'a \<Rightarrow> 'a list" where
  "ringbuffer_push rb v = (if length rb < 1200 then rb @ [v] else tl rb @ [v])"

subsection \<open>The engine state\<close>

text \<open>
  \<^verbatim>\<open>AudioState\<close>: the fields of the nested structs \<^verbatim>\<open>playback\<close> and \<^verbatim>\<open>record\<close>
  carry the struct's name as a prefix. \<open>lastChannels\<close> and \<open>lastSampleRate\<close> are the
  static locals of \<^verbatim>\<open>audio_recordStart\<close>. \<open>trace\<close> is not in the C struct: it records
  the calls made to the backend, the resampler and the graph, oldest first.
\<close>

record 'd AudioState =
  audioDev :: "LG_AudioDevOps option"
  playback_state :: StreamState
  playback_volumeChannels :: int
  playback_volume :: "16 word list"
  playback_mute :: bool
  playback_channels :: int
  playback_sampleRate :: int
  playback_stride :: int
  playback_deviceMaxPeriodFrames :: int
  playback_buffer :: "RingBuffer option"
  playback_deviceTiming :: "PlaybackDeviceTick list option"
  playback_timings :: "'d list option"
  playback_deviceData :: "'d PlaybackDeviceData"
  playback_spiceData :: "'d PlaybackSpiceData"
  record_started :: bool
  record_volumeChannels :: int
  record_volume :: "16 word list"
  record_mute :: bool
  record_stride :: int
  lastChannels :: int
  lastSampleRate :: int
  trace :: "'d event list"

definition call :: "'d event \<Rightarrow> 'd AudioState \<Rightarrow> 'd AudioState" where
  "call e audio = audio\<lparr>trace := trace audio @ [e]\<rparr>"

subsection \<open>playbackStop (lines 182-206)\<close>

definition playbackStop :: "'d AudioState \<Rightarrow> failure + 'd AudioState" where
  "playbackStop audio =
     (if playback_state audio = STREAM_STATE_STOP then Inr audio
      else if audioDev audio = None then Inl NullPointer
      else
        let audio = audio\<lparr>playback_state := STREAM_STATE_STOP\<rparr>;
            audio = call PlaybackStop audio;
            audio = audio\<lparr>playback_buffer := None\<rparr>;
            audio = audio\<lparr>playback_deviceTiming := None\<rparr>;
            audio = call SrcDelete audio;
            audio = audio\<lparr>playback_spiceData := (playback_spiceData audio)\<lparr>src := None\<rparr>\<rparr>;
            audio =
              (if framesIn (playback_spiceData audio) \<noteq> None
               then audio\<lparr>playback_spiceData :=
                      (playback_spiceData audio)\<lparr>framesIn := None, framesOut := None\<rparr>\<rparr>
               else audio);
            audio =
              (if playback_timings audio \<noteq> None
               then (call UnregisterGraph audio)\<lparr>playback_timings := None\<rparr>
               else audio)
        in Inr audio)"

definition and_then :: "failure + 'a \<Rightarrow> ('a \<Rightarrow> failure + 'b) \<Rightarrow> failure + 'b" where
  "and_then r f = (case r of Inl e \<Rightarrow> Inl e | Inr x \<Rightarrow> f x)"

subsection \<open>playbackPullFrames (lines 208-288)\<close>

text \<open>The loop coefficients of a clock tracker (lines 242-245 and 467-470).\<close>

definition loopCoefficients :: "'d fpu \<Rightarrow> 'd \<Rightarrow> 'd \<times> 'd" where
  "loopCoefficients F ps =
     (let bandwidth = flit F 0.05;
          omega = fmul F (fmul F (fmul F (flit F 2) (M_PI F)) bandwidth) ps
      in (fmul F (M_SQRT2 F) omega, fmul F omega omega))"

text \<open>
  The device clock measurement (lines 219-268), run when the coupling buffer exists. It
  returns the updated \<^verbatim>\<open>deviceData\<close> and the coupling buffer, which the slew consumes from.
\<close>

definition playbackPullFrames_clock ::
  "'d fpu \<Rightarrow> int \<Rightarrow> int \<Rightarrow> int \<Rightarrow> RingBuffer \<Rightarrow> 'd PlaybackDeviceData
     \<Rightarrow> 'd PlaybackDeviceData \<times> RingBuffer" where
  "playbackPullFrames_clock F now frames sampleRate buffer data =
     (if frames \<noteq> periodFrames data then
        let newPeriodSec = fdiv F (i2d F frames) (i2d F sampleRate);
            init = (periodFrames data = 0);
            data =
              (if init
               then data\<lparr>nextTime := now + llrint F (fmul F newPeriodSec (flit F (10 ^ 9)))\<rparr>
               else data\<lparr>nextTime :=
                      nextTime data + llrint F (fmul F (periodSec data) (flit F (10 ^ 9)))\<rparr>);
            data = data\<lparr>periodFrames := frames\<rparr>;
            data = data\<lparr>periodSec := newPeriodSec\<rparr>;
            data = data\<lparr>nextPosition := nextPosition data + frames\<rparr>;
            bc = loopCoefficients F (periodSec data)
        in (data\<lparr>b := fst bc, c := snd bc\<rparr>, buffer)
      else
        let error = fmul F (i2d F (now - nextTime data)) (flit F (1 / 10 ^ 9)) in
        if fge F (fabs F error) (flit F 0.2) then
          let slewFrames = round_int F (fmul F error (i2d F sampleRate));
              buffer = ringbuffer_consume buffer None slewFrames;
              data = data\<lparr>periodSec := fdiv F (i2d F frames) (i2d F sampleRate)\<rparr>;
              data = data\<lparr>nextTime := now + llrint F (fmul F (periodSec data) (flit F (10 ^ 9)))\<rparr>;
              data = data\<lparr>nextPosition := nextPosition data + (slewFrames + frames)\<rparr>
          in (data, buffer)
        else
          let data = data\<lparr>nextTime := nextTime data +
                       llrint F (fmul F (fadd F (fmul F (b data) error) (periodSec data))
                                   (flit F (10 ^ 9)))\<rparr>;
              data = data\<lparr>periodSec := fadd F (periodSec data) (fmul F (c data) error)\<rparr>;
              data = data\<lparr>nextPosition := nextPosition data + frames\<rparr>
          in (data, buffer))"

text \<open>
  \<open>now\<close> is the value of \<^verbatim>\<open>nanotime()\<close>, \<open>dst\<close> the destination pointer. The result
  is the new state with the number of frames returned to the device.
\<close>

definition playbackPullFrames ::
  "'d fpu \<Rightarrow> int \<Rightarrow> unit option \<Rightarrow> int \<Rightarrow> 'd AudioState \<Rightarrow> failure + ('d AudioState \<times> int)" where
  "playbackPullFrames F now dst frames audio =
     (if \<not> 0 \<le> frames then Inl AssertFailed
      else if frames = 0 then Inr (audio, frames)
      else
        and_then
          (case playback_buffer audio of
             Some buffer \<Rightarrow>
               (let (data, buffer) =
                      playbackPullFrames_clock F now frames (playback_sampleRate audio) buffer
                        (playback_deviceData audio);
                    audio = audio\<lparr>playback_deviceData := data, playback_buffer := Some buffer\<rparr>;
                    tick = Tick (periodFrames data) (nextTime data) (nextPosition data)
                in case playback_deviceTiming audio of
                     None \<Rightarrow> Inl NullPointer
                   | Some q \<Rightarrow>
                       Inr (audio\<lparr>playback_deviceTiming := Some (tick_append q tick),
                                  playback_buffer := Some (ringbuffer_consume buffer dst frames)\<rparr>,
                            frames))
           | None \<Rightarrow> Inr (audio, 0))
          (\<lambda>(audio, frames).
             if playback_state audio = STREAM_STATE_DRAIN then
               (case playback_buffer audio of
                  None \<Rightarrow> Inl NullPointer
                | Some buffer \<Rightarrow>
                    if ringbuffer_getCount buffer \<le> 0
                    then and_then (playbackStop audio) (\<lambda>audio. Inr (audio, frames))
                    else Inr (audio, frames))
             else Inr (audio, frames)))"

subsection \<open>audio_playbackStart, audio_playbackStop, volume and mute (lines 290-393)\<close>

text \<open>
  \<open>src_ok\<close> tells whether \<^verbatim>\<open>src_new\<close> returns a resampler, \<open>maxPeriodFrames\<close> is what
  the backend's \<^verbatim>\<open>setup\<close> writes to \<^verbatim>\<open>deviceMaxPeriodFrames\<close>. The arguments
  \<^verbatim>\<open>format\<close> and \<^verbatim>\<open>time\<close> are not used by the function.
\<close>

definition audio_playbackStart ::
  "'d fpu \<Rightarrow> bool \<Rightarrow> int \<Rightarrow> int \<Rightarrow> int \<Rightarrow> 'd AudioState \<Rightarrow> failure + 'd AudioState" where
  "audio_playbackStart F src_ok maxPeriodFrames channels sampleRate audio =
     (case audioDev audio of
        None \<Rightarrow> Inr audio
      | Some dev \<Rightarrow>
          and_then
            (if playback_state audio \<noteq> STREAM_STATE_STOP then playbackStop audio else Inr audio)
            (\<lambda>audio.
               let audio = call (SrcNew channels) audio;
                   audio = audio\<lparr>playback_spiceData := (playback_spiceData audio)
                             \<lparr>src := (if src_ok then Some () else None)\<rparr>\<rparr>
               in
               if src (playback_spiceData audio) = None then Inr audio
               else
                 let audio = audio\<lparr>playback_buffer := Some []\<rparr>;
                     audio = audio\<lparr>playback_deviceTiming := Some []\<rparr>;
                     audio = audio\<lparr>playback_channels := channels\<rparr>;
                     audio = audio\<lparr>playback_sampleRate := sampleRate\<rparr>;
                     audio = audio\<lparr>playback_stride := channels * 4\<rparr>;
                     audio = audio\<lparr>playback_state := STREAM_STATE_SETUP\<rparr>;
                     audio = audio\<lparr>playback_deviceData := (playback_deviceData audio)
                               \<lparr>periodFrames := 0, nextPosition := 0\<rparr>\<rparr>;
                     audio = audio\<lparr>playback_spiceData := (playback_spiceData audio)
                               \<lparr>periodFrames := 0, nextPosition := 0,
                                devLastTime := INT64_MIN, devNextTime := INT64_MIN,
                                offsetError := flit F 0, offsetErrorIntegral := flit F 0,
                                ratioIntegral := flit F 0\<rparr>\<rparr>;
                     audio = audio\<lparr>playback_deviceMaxPeriodFrames := 0\<rparr>;
                     audio = call (PlaybackSetup channels sampleRate) audio;
                     audio = audio\<lparr>playback_deviceMaxPeriodFrames := maxPeriodFrames\<rparr>
                 in
                 if \<not> 0 < playback_deviceMaxPeriodFrames audio then Inl AssertFailed
                 else
                   and_then
                     (if playback_volumeChannels audio \<noteq> 0
                      then (if has_playback_volume dev
                            then Inr (call (PlaybackVolume (playback_volumeChannels audio)
                                              (playback_volume audio)) audio)
                            else Inl NullPointer)
                      else Inr audio)
                     (\<lambda>audio.
                        let audio =
                              (if has_playback_mute dev
                               then call (PlaybackMute (playback_mute audio)) audio
                               else audio);
                            audio = audio\<lparr>playback_timings := Some []\<rparr>;
                            audio = call RegisterGraph audio;
                            audio = audio\<lparr>playback_state := STREAM_STATE_SETUP\<rparr>
                        in Inr audio)))"

definition audio_playbackStop :: "'d AudioState \<Rightarrow> 'd AudioState" where
  "audio_playbackStop audio =
     (if audioDev audio = None \<or> playback_state audio = STREAM_STATE_STOP then audio
      else audio\<lparr>playback_state := STREAM_STATE_DRAIN\<rparr>)"

text \<open>
  \<^verbatim>\<open>min(ARRAY_LENGTH(volume), channels)\<close> compares in \<^verbatim>\<open>size_t\<close>, where a negative
  \<^verbatim>\<open>int\<close> is larger than 8. \<^verbatim>\<open>memcpy\<close> reads that many entries of the argument.
\<close>

definition volume_channels :: "int \<Rightarrow> int" where
  "volume_channels channels = (if channels < 0 then 8 else min 8 channels)"

definition volume_store :: "16 word list \<Rightarrow> 16 word list \<Rightarrow> int \<Rightarrow> 16 word list" where
  "volume_store cached volume n = take (nat n) volume @ drop (nat n) cached"

definition audio_playbackVolume ::
  "int \<Rightarrow> 16 word list \<Rightarrow> 'd AudioState \<Rightarrow> failure + 'd AudioState" where
  "audio_playbackVolume channels volume audio =
     (case audioDev audio of
        None \<Rightarrow> Inr audio
      | Some dev \<Rightarrow>
          if \<not> has_playback_volume dev then Inr audio
          else
            let channels = volume_channels channels in
            if int (length volume) < channels then Inl OutOfBounds
            else
              let audio = audio\<lparr>playback_volume :=
                            volume_store (playback_volume audio) volume channels\<rparr>;
                  audio = audio\<lparr>playback_volumeChannels := channels\<rparr>
              in if \<not> STREAM_ACTIVE (playback_state audio) then Inr audio
                 else Inr (call (PlaybackVolume channels volume) audio))"

definition audio_playbackMute :: "bool \<Rightarrow> 'd AudioState \<Rightarrow> 'd AudioState" where
  "audio_playbackMute mute audio =
     (case audioDev audio of
        None \<Rightarrow> audio
      | Some dev \<Rightarrow>
          if \<not> has_playback_mute dev then audio
          else
            let audio = audio\<lparr>playback_mute := mute\<rparr>
            in if \<not> STREAM_ACTIVE (playback_state audio) then audio
               else call (PlaybackMute mute) audio)"

subsection \<open>audio_playbackData (lines 395-635)\<close>

text \<open>
  What one call receives from outside: the value of \<^verbatim>\<open>nanotime()\<close>, whether the two
  \<^verbatim>\<open>malloc\<close> calls succeed, the results of the successive \<^verbatim>\<open>src_process\<close> calls
  (error code, \<^verbatim>\<open>input_frames_used\<close>, \<^verbatim>\<open>output_frames_gen\<close>) and the value of the
  backend's \<^verbatim>\<open>latency()\<close>. The samples are not modelled: \<open>nbytes\<close> is the argument
  \<^verbatim>\<open>size\<close>, the byte count of the period.
\<close>

datatype src_result =
  SrcResult (src_error: int) (input_frames_used: int) (output_frames_gen: int)

record data_env =
  env_now :: int
  env_mallocIn :: bool
  env_mallocOut :: bool
  env_resampler :: "src_result list"
  env_latency :: int

text \<open>
  Lines 412-437, run when the period changed: the scratch buffers are released and
  allocated again. The result is false when a \<^verbatim>\<open>malloc\<close> fails. A released buffer is
  \<open>None\<close>: the C code leaves the dangling pointers in place and never reads them.
\<close>

definition playbackData_alloc ::
  "'d fpu \<Rightarrow> bool \<Rightarrow> bool \<Rightarrow> int \<Rightarrow> int \<Rightarrow> 'd PlaybackSpiceData \<Rightarrow> 'd PlaybackSpiceData \<times> bool" where
  "playbackData_alloc F mallocIn mallocOut frames stride spiceData =
     (let spiceData =
            (if framesIn spiceData \<noteq> None
             then spiceData\<lparr>framesIn := None, framesOut := None\<rparr>
             else spiceData);
          spiceData = spiceData\<lparr>periodFrames := frames\<rparr>;
          spiceData = spiceData\<lparr>framesIn := (if mallocIn then Some (frames * stride) else None)\<rparr>
      in
      if framesIn spiceData = None then (spiceData, False)
      else
        let spiceData = spiceData\<lparr>framesOutSize :=
                          round_int F (fmul F (i2d F frames) (flit F 1.1))\<rparr>;
            spiceData = spiceData\<lparr>framesOut :=
                          (if mallocOut then Some (framesOutSize spiceData * stride) else None)\<rparr>
        in (spiceData, framesOut spiceData \<noteq> None))"

text \<open>Lines 442-451: the tick queue is read until it is empty.\<close>

fun receiveTicks :: "PlaybackDeviceTick list \<Rightarrow> 'd PlaybackSpiceData \<Rightarrow> 'd PlaybackSpiceData" where
  "receiveTicks [] spiceData = spiceData"
| "receiveTicks (deviceTick # q) spiceData =
     receiveTicks q
       (spiceData\<lparr>devPeriodFrames := tick_periodFrames deviceTick,
                  devLastTime := devNextTime spiceData,
                  devLastPosition := devNextPosition spiceData,
                  devNextTime := tick_nextTime deviceTick,
                  devNextPosition := tick_nextPosition deviceTick\<rparr>)"

text \<open>
  Lines 453-498, the Spice clock measurement. \<open>periodChanged\<close> and \<open>init\<close> are the
  flags computed at lines 409-410, before \<^verbatim>\<open>periodFrames\<close> is updated. The result is
  \<^verbatim>\<open>curTime\<close>, \<^verbatim>\<open>curPosition\<close>, the updated \<^verbatim>\<open>spiceData\<close> and the coupling buffer.
\<close>

definition playbackData_clock ::
  "'d fpu \<Rightarrow> int \<Rightarrow> int \<Rightarrow> int \<Rightarrow> bool \<Rightarrow> bool \<Rightarrow> RingBuffer option \<Rightarrow> 'd PlaybackSpiceData
     \<Rightarrow> failure + (int \<times> int \<times> 'd PlaybackSpiceData \<times> RingBuffer option)" where
  "playbackData_clock F now frames sampleRate periodChanged init buffer spiceData =
     (if periodChanged then
        let spiceData = (if init then spiceData\<lparr>nextTime := now\<rparr> else spiceData);
            curTime = nextTime spiceData;
            curPosition = nextPosition spiceData;
            spiceData = spiceData\<lparr>periodSec := fdiv F (i2d F frames) (i2d F sampleRate)\<rparr>;
            spiceData = spiceData\<lparr>nextTime :=
                          nextTime spiceData + llrint F (fmul F (periodSec spiceData) (flit F (10 ^ 9)))\<rparr>;
            bc = loopCoefficients F (periodSec spiceData)
        in Inr (curTime, curPosition, spiceData\<lparr>b := fst bc, c := snd bc\<rparr>, buffer)
      else
        let error = fmul F (i2d F (now - nextTime spiceData)) (flit F (1 / 10 ^ 9)) in
        if fge F (fabs F error) (flit F 0.2) then
          let slewFrames = round_int F (fmul F error (i2d F sampleRate)) in
          case buffer of
            None \<Rightarrow> Inl NullPointer
          | Some rb \<Rightarrow>
              let buffer = Some (ringbuffer_append rb None slewFrames);
                  curTime = now;
                  curPosition = nextPosition spiceData + slewFrames;
                  spiceData = spiceData\<lparr>periodSec := fdiv F (i2d F frames) (i2d F sampleRate)\<rparr>;
                  spiceData = spiceData\<lparr>nextTime :=
                                now + llrint F (fmul F (periodSec spiceData) (flit F (10 ^ 9)))\<rparr>;
                  spiceData = spiceData\<lparr>nextPosition := curPosition\<rparr>
              in Inr (curTime, curPosition, spiceData, buffer)
        else
          let curTime = nextTime spiceData;
              curPosition = nextPosition spiceData;
              spiceData = spiceData\<lparr>nextTime := nextTime spiceData +
                            llrint F (fmul F (fadd F (fmul F (b spiceData) error) (periodSec spiceData))
                                        (flit F (10 ^ 9)))\<rparr>;
              spiceData = spiceData\<lparr>periodSec :=
                            fadd F (periodSec spiceData) (fmul F (c spiceData) error)\<rparr>
          in Inr (curTime, curPosition, spiceData, buffer))"

text \<open>Lines 522-562: the target latency in frames.\<close>

definition targetLatencyFrames :: "'d fpu \<Rightarrow> int \<Rightarrow> int \<Rightarrow> int \<Rightarrow> 'd" where
  "targetLatencyFrames F sampleRate deviceMaxPeriodFrames devPeriod =
     (let spiceJitterMs = 13;
          target = fadd F (fdiv F (i2d F (spiceJitterMs * sampleRate)) (flit F 1000))
                     (fmul F (i2d F deviceMaxPeriodFrames) (flit F 1.1))
      in if devPeriod < deviceMaxPeriodFrames
         then fadd F target (i2d F (deviceMaxPeriodFrames - devPeriod))
         else target)"

text \<open>
  Lines 505-571: the offset between the Spice and the device position and its filter.
  \<open>offsetError0\<close> is the local \<^verbatim>\<open>offsetError\<close> of line 506. The result is
  \<^verbatim>\<open>actualOffset\<close> and the updated \<^verbatim>\<open>spiceData\<close>.
\<close>

definition playbackData_offset ::
  "'d fpu \<Rightarrow> int \<Rightarrow> int \<Rightarrow> int \<Rightarrow> int \<Rightarrow> 'd \<Rightarrow> 'd PlaybackSpiceData \<Rightarrow> 'd \<times> 'd PlaybackSpiceData" where
  "playbackData_offset F sampleRate deviceMaxPeriodFrames curTime curPosition offsetError0 spiceData =
     (if devLastTime spiceData \<noteq> INT64_MIN then
        let devPosition =
              fadd F (i2d F (devLastPosition spiceData))
                (fmul F (i2d F (devNextPosition spiceData - devLastPosition spiceData))
                   (fdiv F (i2d F (curTime - devLastTime spiceData))
                      (i2d F (devNextTime spiceData - devLastTime spiceData))));
            target = targetLatencyFrames F sampleRate deviceMaxPeriodFrames
                       (devPeriodFrames spiceData);
            actualOffset = fsub F (i2d F curPosition) devPosition;
            actualOffsetError = fneg F (fsub F actualOffset target);
            error = fsub F actualOffsetError offsetError0;
            spiceData = spiceData\<lparr>offsetError :=
                          fadd F (offsetError spiceData)
                            (fadd F (fmul F (b spiceData) error) (offsetErrorIntegral spiceData))\<rparr>;
            spiceData = spiceData\<lparr>offsetErrorIntegral :=
                          fadd F (offsetErrorIntegral spiceData) (fmul F (c spiceData) error)\<rparr>
        in (actualOffset, spiceData)
      else (flit F 0, spiceData))"

text \<open>Lines 575-581: the PI controller. The result is \<^verbatim>\<open>ratio\<close> and the updated \<^verbatim>\<open>spiceData\<close>.\<close>

definition playbackData_ratio ::
  "'d fpu \<Rightarrow> 'd \<Rightarrow> 'd PlaybackSpiceData \<Rightarrow> 'd \<times> 'd PlaybackSpiceData" where
  "playbackData_ratio F offsetError0 spiceData =
     (let kp = flit F (0.5 / 10 ^ 6);
          ki = flit F (1 / 10 ^ 16);
          spiceData = spiceData\<lparr>ratioIntegral :=
                        fadd F (ratioIntegral spiceData) (fmul F offsetError0 (periodSec spiceData))\<rparr>;
          piOutput = fadd F (fmul F kp offsetError0) (fmul F ki (ratioIntegral spiceData));
          ratio = fadd F (flit F 1) piOutput
      in (ratio, spiceData))"

text \<open>
  Lines 583-611, the resampler loop, started with \<open>consumed = 0\<close>. Each turn takes the
  next result of \<^verbatim>\<open>src_process\<close>; when the results are used up with input left, the
  loop has not returned (\<open>ResamplerStalled\<close>). The result is the state, \<^verbatim>\<open>consumed\<close>,
  and whether the function returned from inside the loop on a resampler error.
\<close>

fun playbackData_resample ::
  "'d \<Rightarrow> int \<Rightarrow> src_result list \<Rightarrow> int \<Rightarrow> 'd AudioState \<Rightarrow> failure + ('d AudioState \<times> int \<times> bool)" where
  "playbackData_resample ratio frames [] consumed audio =
     (if consumed < frames then Inl ResamplerStalled else Inr (audio, consumed, False))"
| "playbackData_resample ratio frames (srcData # results) consumed audio =
     (if consumed < frames then
        let audio = call (SrcProcess consumed (frames - consumed)
                            (framesOutSize (playback_spiceData audio)) ratio) audio
        in
        if src_error srcData \<noteq> 0 then Inr (audio, consumed, True)
        else
          case playback_buffer audio of
            None \<Rightarrow> Inl NullPointer
          | Some buffer \<Rightarrow>
              let audio = audio\<lparr>playback_buffer :=
                            Some (ringbuffer_append buffer (Some ()) (output_frames_gen srcData))\<rparr>;
                  consumed = consumed + input_frames_used srcData;
                  audio = audio\<lparr>playback_spiceData := (playback_spiceData audio)
                            \<lparr>nextPosition := nextPosition (playback_spiceData audio)
                                              + output_frames_gen srcData\<rparr>\<rparr>
              in playbackData_resample ratio frames results consumed audio
      else Inr (audio, consumed, False))"

text \<open>Lines 613-626: the start of the device.\<close>

definition playbackData_start :: "'d AudioState \<Rightarrow> failure + 'd AudioState" where
  "playbackData_start audio =
     (if playback_state audio = STREAM_STATE_SETUP then
        let startFrames = periodFrames (playback_spiceData audio) * 2
                            + playback_deviceMaxPeriodFrames audio * 2
        in
        if startFrames \<le> nextPosition (playback_spiceData audio) then
          (case audioDev audio of
             None \<Rightarrow> Inl NullPointer
           | Some dev \<Rightarrow>
               if has_playback_start dev
               then Inr ((call PlaybackStart audio)\<lparr>playback_state := STREAM_STATE_RUN\<rparr>)
               else Inl NullPointer)
        else Inr audio
      else Inr audio)"

text \<open>Lines 628-634: the latency is pushed to the graph.\<close>

definition playbackData_latency ::
  "'d fpu \<Rightarrow> int \<Rightarrow> 'd \<Rightarrow> 'd AudioState \<Rightarrow> failure + 'd AudioState" where
  "playbackData_latency F devLatency actualOffset audio =
     (case audioDev audio of
        None \<Rightarrow> Inl NullPointer
      | Some dev \<Rightarrow>
          let latencyFrames =
                (if has_playback_latency dev then fadd F actualOffset (i2d F devLatency)
                 else actualOffset);
              latency = d2f F (fdiv F (fmul F latencyFrames (flit F 1000))
                                 (i2d F (playback_sampleRate audio)))
          in (case playback_timings audio of
                None \<Rightarrow> Inl NullPointer
              | Some timings \<Rightarrow>
                  Inr (call InvalidateGraph
                         (audio\<lparr>playback_timings := Some (ringbuffer_push timings latency)\<rparr>))))"

text \<open>
  The division of line 408 is made in \<^verbatim>\<open>size_t\<close>: a negative stride is converted to
  an unsigned 64 bit value first.
\<close>

definition size_t_of_int :: "int \<Rightarrow> nat" where
  "size_t_of_int i = nat (i mod 2 ^ 64)"

text \<open>
  Lines 500-635, from the offset measurement to the end of the function, run with the
  \<^verbatim>\<open>curTime\<close> and \<^verbatim>\<open>curPosition\<close> of the clock measurement.
\<close>

definition playbackData_output ::
  "'d fpu \<Rightarrow> data_env \<Rightarrow> int \<Rightarrow> int \<Rightarrow> int \<Rightarrow> 'd AudioState \<Rightarrow> failure + 'd AudioState" where
  "playbackData_output F env frames curTime curPosition audio =
     (let offsetError0 = offsetError (playback_spiceData audio);
          off = playbackData_offset F (playback_sampleRate audio)
                  (playback_deviceMaxPeriodFrames audio) curTime curPosition
                  offsetError0 (playback_spiceData audio);
          actualOffset = fst off;
          pi_out = playbackData_ratio F offsetError0 (snd off);
          ratio = fst pi_out;
          audio = audio\<lparr>playback_spiceData := snd pi_out\<rparr>
      in
      and_then (playbackData_resample ratio frames (env_resampler env) 0 audio)
        (\<lambda>(audio, consumed, failed).
           if failed then Inr audio
           else and_then (playbackData_start audio)
                  (playbackData_latency F (env_latency env) actualOffset)))"

definition audio_playbackData ::
  "'d fpu \<Rightarrow> data_env \<Rightarrow> nat \<Rightarrow> 'd AudioState \<Rightarrow> failure + 'd AudioState" where
  "audio_playbackData F env nbytes audio =
     (if audioDev audio = None \<or> nbytes = 0 then Inr audio
      else if \<not> STREAM_ACTIVE (playback_state audio) then Inr audio
      else
        let now = env_now env;
            spiceStride = playback_channels audio * 2
        in
        if size_t_of_int spiceStride = 0 then Inl DivByZero
        else
          let frames = int (nbytes div size_t_of_int spiceStride);
              periodChanged = (frames \<noteq> periodFrames (playback_spiceData audio));
              init = (periodFrames (playback_spiceData audio) = 0);
              alloc =
                (if periodChanged
                 then playbackData_alloc F (env_mallocIn env) (env_mallocOut env) frames
                        (playback_stride audio) (playback_spiceData audio)
                 else (playback_spiceData audio, True));
              audio = audio\<lparr>playback_spiceData := fst alloc\<rparr>
          in
          if \<not> snd alloc then playbackStop audio
          else if framesIn (playback_spiceData audio) = None \<and> 0 < frames * playback_channels audio
          then Inl NullPointer
          else
            case playback_deviceTiming audio of
              None \<Rightarrow> Inl NullPointer
            | Some q \<Rightarrow>
                let audio = audio\<lparr>playback_spiceData := receiveTicks q (playback_spiceData audio),
                                  playback_deviceTiming := Some []\<rparr>
                in
                and_then
                  (playbackData_clock F now frames (playback_sampleRate audio) periodChanged init
                     (playback_buffer audio) (playback_spiceData audio))
                  (\<lambda>(curTime, curPosition, spiceData, buffer).
                     playbackData_output F env frames curTime curPosition
                       (audio\<lparr>playback_spiceData := spiceData, playback_buffer := buffer\<rparr>)))"

subsection \<open>The record path (lines 637-717)\<close>

definition recordPushFrames :: "int \<Rightarrow> 'd AudioState \<Rightarrow> 'd AudioState" where
  "recordPushFrames frames audio = call (WriteAudio (frames * record_stride audio)) audio"

text \<open>The argument \<^verbatim>\<open>format\<close> is not used by the function.\<close>

definition audio_recordStart :: "int \<Rightarrow> int \<Rightarrow> 'd AudioState \<Rightarrow> failure + 'd AudioState" where
  "audio_recordStart channels sampleRate audio =
     (case audioDev audio of
        None \<Rightarrow> Inr audio
      | Some dev \<Rightarrow>
          if record_started audio
             \<and> \<not> (channels \<noteq> lastChannels audio \<or> sampleRate \<noteq> lastSampleRate audio)
          then Inr audio
          else
            let audio = (if record_started audio then call RecordStop audio else audio);
                audio = audio\<lparr>lastChannels := channels\<rparr>;
                audio = audio\<lparr>lastSampleRate := sampleRate\<rparr>;
                audio = audio\<lparr>record_started := True\<rparr>;
                audio = audio\<lparr>record_stride := channels * 2\<rparr>
            in
            if \<not> has_record_start dev then Inl NullPointer
            else
              let audio = call (RecordStart channels sampleRate) audio in
              and_then
                (if record_volumeChannels audio \<noteq> 0
                 then (if has_record_volume dev
                       then Inr (call (RecordVolume (playback_volumeChannels audio)
                                         (playback_volume audio)) audio)
                       else Inl NullPointer)
                 else Inr audio)
                (\<lambda>audio.
                   Inr (if has_record_mute dev
                        then call (RecordMute (playback_mute audio)) audio
                        else audio)))"

definition audio_recordStop :: "'d AudioState \<Rightarrow> 'd AudioState" where
  "audio_recordStop audio =
     (if audioDev audio = None \<or> \<not> record_started audio then audio
      else (call RecordStop audio)\<lparr>record_started := False\<rparr>)"

definition audio_recordVolume ::
  "int \<Rightarrow> 16 word list \<Rightarrow> 'd AudioState \<Rightarrow> failure + 'd AudioState" where
  "audio_recordVolume channels volume audio =
     (case audioDev audio of
        None \<Rightarrow> Inr audio
      | Some dev \<Rightarrow>
          if \<not> has_record_volume dev then Inr audio
          else
            let channels = volume_channels channels in
            if int (length volume) < channels then Inl OutOfBounds
            else
              let audio = audio\<lparr>record_volume :=
                            volume_store (record_volume audio) volume channels\<rparr>;
                  audio = audio\<lparr>record_volumeChannels := channels\<rparr>
              in if \<not> record_started audio then Inr audio
                 else Inr (call (RecordVolume channels volume) audio))"

definition audio_recordMute :: "bool \<Rightarrow> 'd AudioState \<Rightarrow> 'd AudioState" where
  "audio_recordMute mute audio =
     (case audioDev audio of
        None \<Rightarrow> audio
      | Some dev \<Rightarrow>
          if \<not> has_record_mute dev then audio
          else
            let audio = audio\<lparr>record_mute := mute\<rparr>
            in if \<not> record_started audio then audio
               else call (RecordMute mute) audio)"

subsection \<open>audio_init and audio_free (lines 128-165)\<close>

text \<open>\<^verbatim>\<open>static AudioState audio = { 0 }\<close>.\<close>

definition audio_zero :: "'d fpu \<Rightarrow> 'd AudioState" where
  "audio_zero F =
     \<lparr> audioDev = None,
       playback_state = STREAM_STATE_STOP,
       playback_volumeChannels = 0,
       playback_volume = replicate 8 0,
       playback_mute = False,
       playback_channels = 0,
       playback_sampleRate = 0,
       playback_stride = 0,
       playback_deviceMaxPeriodFrames = 0,
       playback_buffer = None,
       playback_deviceTiming = None,
       playback_timings = None,
       playback_deviceData =
         \<lparr> periodFrames = 0, periodSec = flit F 0, nextTime = 0, nextPosition = 0,
           b = flit F 0, c = flit F 0 \<rparr>,
       playback_spiceData =
         \<lparr> periodFrames = 0, periodSec = flit F 0, nextTime = 0, nextPosition = 0,
           b = flit F 0, c = flit F 0,
           framesIn = None, framesOut = None, framesOutSize = 0,
           devPeriodFrames = 0, devLastTime = 0, devNextTime = 0,
           devLastPosition = 0, devNextPosition = 0,
           offsetError = flit F 0, offsetErrorIntegral = flit F 0, ratioIntegral = flit F 0,
           src = None \<rparr>,
       record_started = False,
       record_volumeChannels = 0,
       record_volume = replicate 8 0,
       record_mute = False,
       record_stride = 0,
       lastChannels = 0,
       lastSampleRate = 0,
       trace = [] \<rparr>"

text \<open>
  The table \<^verbatim>\<open>LG_AudioDevs\<close> is the argument: each backend with the result of its
  \<^verbatim>\<open>init()\<close>.
\<close>

fun audio_init :: "(bool \<times> LG_AudioDevOps) list \<Rightarrow> 'd AudioState \<Rightarrow> 'd AudioState" where
  "audio_init [] audio = audio"
| "audio_init ((ok, dev) # devs) audio =
     (if ok then audio\<lparr>audioDev := Some dev\<rparr> else audio_init devs audio)"

definition audio_free :: "'d AudioState \<Rightarrow> failure + 'd AudioState" where
  "audio_free audio =
     (if audioDev audio = None then Inr audio
      else and_then (playbackStop audio)
             (\<lambda>audio. Inr ((call DevFree (audio_recordStop audio))\<lparr>audioDev := None\<rparr>)))"

subsection \<open>Sequences of calls\<close>

text \<open>
  The engine is driven from outside: the network receiver calls the \<^verbatim>\<open>audio_\<close>
  functions, the backend calls \<^verbatim>\<open>playbackPullFrames\<close> and \<^verbatim>\<open>recordPushFrames\<close>.
  A call is a value, \<open>step\<close> makes one call and \<open>run\<close> a list of calls, stopping at
  the first failure.
\<close>

datatype engine_call =
    Init "(bool \<times> LG_AudioDevOps) list"
  | Free
  | PullFrames int "unit option" int
  | PlaybackStartCall bool int int int
  | PlaybackStopCall
  | PlaybackVolumeCall int "16 word list"
  | PlaybackMuteCall bool
  | PlaybackDataCall data_env nat
  | PushFrames int
  | RecordStartCall int int
  | RecordStopCall
  | RecordVolumeCall int "16 word list"
  | RecordMuteCall bool

fun step :: "'d fpu \<Rightarrow> engine_call \<Rightarrow> 'd AudioState \<Rightarrow> failure + 'd AudioState" where
  "step F (Init devs) audio = Inr (audio_init devs audio)"
| "step F Free audio = audio_free audio"
| "step F (PullFrames now dst frames) audio =
     and_then (playbackPullFrames F now dst frames audio) (\<lambda>(audio, n). Inr audio)"
| "step F (PlaybackStartCall src_ok maxPeriodFrames channels sampleRate) audio =
     audio_playbackStart F src_ok maxPeriodFrames channels sampleRate audio"
| "step F PlaybackStopCall audio = Inr (audio_playbackStop audio)"
| "step F (PlaybackVolumeCall channels volume) audio = audio_playbackVolume channels volume audio"
| "step F (PlaybackMuteCall mute) audio = Inr (audio_playbackMute mute audio)"
| "step F (PlaybackDataCall env nbytes) audio = audio_playbackData F env nbytes audio"
| "step F (PushFrames frames) audio = Inr (recordPushFrames frames audio)"
| "step F (RecordStartCall channels sampleRate) audio = audio_recordStart channels sampleRate audio"
| "step F RecordStopCall audio = Inr (audio_recordStop audio)"
| "step F (RecordVolumeCall channels volume) audio = audio_recordVolume channels volume audio"
| "step F (RecordMuteCall mute) audio = Inr (audio_recordMute mute audio)"

fun run :: "'d fpu \<Rightarrow> engine_call list \<Rightarrow> 'd AudioState \<Rightarrow> failure + 'd AudioState" where
  "run F [] audio = Inr audio"
| "run F (x # xs) audio = and_then (step F x audio) (run F xs)"

text \<open>
  What holds of the state after any sequence of calls: outside \<^verbatim>\<open>STREAM_STATE_STOP\<close> the
  backend, the two ring buffers, the graph ring and the resampler exist, and the output
  scratch buffer is allocated only together with the input one.
\<close>

definition stream_allocated :: "'d AudioState \<Rightarrow> bool" where
  "stream_allocated audio =
     (audioDev audio \<noteq> None \<and> playback_buffer audio \<noteq> None
      \<and> playback_deviceTiming audio \<noteq> None \<and> playback_timings audio \<noteq> None
      \<and> src (playback_spiceData audio) \<noteq> None)"

definition engine_inv :: "'d AudioState \<Rightarrow> bool" where
  "engine_inv audio =
     ((playback_state audio = STREAM_STATE_STOP \<or> stream_allocated audio)
      \<and> (framesOut (playback_spiceData audio) = None
           \<or> framesIn (playback_spiceData audio) \<noteq> None))"

subsection \<open>Notions used in the statements\<close>

text \<open>
  The frame count of a period of \<open>nbytes\<close> bytes (lines 407-408), and the
  \<^verbatim>\<open>spiceData\<close> after lines 412-437 when both allocations succeed.
\<close>

definition data_frames :: "'d AudioState \<Rightarrow> nat \<Rightarrow> int" where
  "data_frames audio nbytes = int (nbytes div size_t_of_int (playback_channels audio * 2))"

definition data_scratch :: "'d fpu \<Rightarrow> 'd AudioState \<Rightarrow> nat \<Rightarrow> 'd PlaybackSpiceData" where
  "data_scratch F audio nbytes =
     (if data_frames audio nbytes \<noteq> periodFrames (playback_spiceData audio)
      then fst (playbackData_alloc F True True (data_frames audio nbytes) (playback_stride audio)
                  (playback_spiceData audio))
      else playback_spiceData audio)"






fun src_ratio_of :: "'d event \<Rightarrow> 'd list" where
  "src_ratio_of (SrcProcess off n m r) = [r]"
| "src_ratio_of e = []"

definition src_ratios :: "'d event list \<Rightarrow> 'd list" where
  "src_ratios evs = concat (map src_ratio_of evs)"


text \<open>
  The results let the loop return: the input is used up or a call fails before the
  results run out.
\<close>

fun src_returns :: "int \<Rightarrow> src_result list \<Rightarrow> bool" where
  "src_returns avail [] = (avail \<le> 0)"
| "src_returns avail (r # rs) =
     (if avail \<le> 0 \<or> src_error r \<noteq> 0 then True
      else src_returns (avail - input_frames_used r) rs)"


subsection \<open>Example inputs\<close>

text \<open>A backend that has every optional callback.\<close>

definition ex_dev :: LG_AudioDevOps where
  "ex_dev =
     \<lparr> has_playback_start = True, has_playback_volume = True, has_playback_mute = True,
       has_playback_latency = True, has_record_start = True, has_record_volume = True,
       has_record_mute = True \<rparr>"



section \<open>Properties\<close>

subsection \<open>Helper facts\<close>

lemma and_then_Inr_iff:
  "and_then r f = Inr y \<longleftrightarrow> (\<exists>x. r = Inr x \<and> f x = Inr y)"
  by (cases r) (auto simp: and_then_def)

lemma and_then_Inr [simp]: "and_then (Inr x) f = f x"
  by (simp add: and_then_def)

lemma and_then_Inl [simp]: "and_then (Inl e) f = Inl e"
  by (simp add: and_then_def)

subsection \<open>The resampler loop\<close>


lemma resample_step:
  assumes "consumed < frames" "src_error r = 0" "playback_buffer audio = Some rb"
  shows "playbackData_resample ratio frames (r # tape) consumed audio =
         playbackData_resample ratio frames tape (consumed + input_frames_used r)
           (audio\<lparr>trace := trace audio @ [SrcProcess consumed (frames - consumed)
                            (framesOutSize (playback_spiceData audio)) ratio],
                playback_buffer := Some (rb @ [Append (Some ()) (output_frames_gen r)]),
                playback_spiceData := (playback_spiceData audio)
                            \<lparr>nextPosition := nextPosition (playback_spiceData audio)
                                              + output_frames_gen r\<rparr>\<rparr>)"
  using assms by (simp add: call_def Let_def ringbuffer_append_def)


lemma resample_returns:
  "playback_buffer audio \<noteq> None \<Longrightarrow> src_returns (frames - consumed) tape \<Longrightarrow>
   \<exists>res. playbackData_resample ratio frames tape consumed audio = Inr res"
proof (induction tape arbitrary: consumed audio)
  case Nil
  then show ?case by auto
next
  case (Cons r tape)
  show ?case
  proof (cases "consumed < frames \<and> src_error r = 0")
    case False
    then show ?thesis by (auto simp: call_def Let_def)
  next
    case True
    from Cons.prems obtain rb where rb: "playback_buffer audio = Some rb" by auto
    note st = resample_step[of consumed frames r audio rb ratio tape]
    have "src_returns (frames - (consumed + input_frames_used r)) tape"
      using Cons.prems(2) True by (simp add: algebra_simps)
    from Cons.IH[OF _ this] show ?thesis using st True rb by simp
  qed
qed


subsection \<open>The phases of an accepted period\<close>

lemma alloc_ok: "snd (playbackData_alloc F True True frames stride sd)"
  by (simp add: playbackData_alloc_def Let_def)

lemma audio_playbackData_accepted:
  assumes dev: "audioDev audio \<noteq> None" and nz: "nbytes \<noteq> 0"
    and act: "STREAM_ACTIVE (playback_state audio)"
    and mem: "env_mallocIn env" "env_mallocOut env"
    and ret: "audio_playbackData F env nbytes audio = Inr audio'"
  shows "\<exists>q curTime curPosition spiceData buffer.
           playback_deviceTiming audio = Some q
         \<and> playbackData_clock F (env_now env) (data_frames audio nbytes) (playback_sampleRate audio)
              (data_frames audio nbytes \<noteq> periodFrames (playback_spiceData audio))
              (periodFrames (playback_spiceData audio) = 0) (playback_buffer audio)
              (receiveTicks q (data_scratch F audio nbytes))
            = Inr (curTime, curPosition, spiceData, buffer)
         \<and> playbackData_output F env (data_frames audio nbytes) curTime curPosition
              (audio\<lparr>playback_deviceTiming := Some [], playback_spiceData := spiceData,
                 playback_buffer := buffer\<rparr>) = Inr audio'"
proof -
  from ret dev nz act obtain q where q: "playback_deviceTiming audio = Some q"
    unfolding audio_playbackData_def
    by (auto simp: Let_def alloc_ok mem split: if_splits option.splits)
  from ret dev nz act q mem show ?thesis
    unfolding audio_playbackData_def data_frames_def data_scratch_def
    by (auto simp: Let_def alloc_ok and_then_Inr_iff split: if_splits)
qed


lemma start_transition:
  "playbackData_start audio = Inr audio' \<Longrightarrow>
     (trace audio' = trace audio @ [PlaybackStart]
        \<and> playback_state audio = STREAM_STATE_SETUP \<and> playback_state audio' = STREAM_STATE_RUN
        \<and> periodFrames (playback_spiceData audio) * 2 + playback_deviceMaxPeriodFrames audio * 2
              \<le> nextPosition (playback_spiceData audio))
   \<or> (audio' = audio
        \<and> (playback_state audio = STREAM_STATE_SETUP
             \<longrightarrow> \<not> periodFrames (playback_spiceData audio) * 2 + playback_deviceMaxPeriodFrames audio * 2
              \<le> nextPosition (playback_spiceData audio)))"
  by (auto simp: playbackData_start_def Let_def call_def
      split: if_splits option.splits)


lemma src_ratios_append [simp]: "src_ratios (xs @ ys) = src_ratios xs @ src_ratios ys"
  by (simp add: src_ratios_def)
















subsection \<open>The sink pull\<close>






subsection \<open>The Spice clock\<close>





subsection \<open>A change of the period size\<close>




subsection \<open>What holds after any sequence of calls\<close>

lemma audio_playbackData_cases:
  assumes ret: "audio_playbackData F env nbytes audio = Inr audio'"
  shows "audio' = audio
       \<or> (STREAM_ACTIVE (playback_state audio) \<and> audioDev audio \<noteq> None
          \<and> playbackStop (audio\<lparr>playback_spiceData :=
                fst (playbackData_alloc F (env_mallocIn env) (env_mallocOut env)
                       (data_frames audio nbytes) (playback_stride audio)
                       (playback_spiceData audio))\<rparr>) = Inr audio')
       \<or> (STREAM_ACTIVE (playback_state audio) \<and> audioDev audio \<noteq> None
          \<and> (\<exists>q sd0 curTime curPosition spiceData buffer.
                 playback_deviceTiming audio = Some q
               \<and> (sd0 = playback_spiceData audio
                    \<or> sd0 = fst (playbackData_alloc F True True
                       (data_frames audio nbytes) (playback_stride audio)
                       (playback_spiceData audio)))
               \<and> playbackData_clock F (env_now env) (data_frames audio nbytes)
                    (playback_sampleRate audio)
                    (data_frames audio nbytes \<noteq> periodFrames (playback_spiceData audio))
                    (periodFrames (playback_spiceData audio) = 0) (playback_buffer audio)
                    (receiveTicks q sd0)
                  = Inr (curTime, curPosition, spiceData, buffer)
               \<and> playbackData_output F env (data_frames audio nbytes) curTime curPosition
                    (audio\<lparr>playback_deviceTiming := Some [], playback_spiceData := spiceData,
                       playback_buffer := buffer\<rparr>) = Inr audio'))"
proof (cases "audioDev audio = None \<or> nbytes = 0 \<or> \<not> STREAM_ACTIVE (playback_state audio)")
  case True
  have "audio_playbackData F env nbytes audio = Inr audio"
    using True by (auto simp: audio_playbackData_def)
  with ret show ?thesis by simp
next
  case False
  then have g: "audioDev audio \<noteq> None" "nbytes \<noteq> 0" "STREAM_ACTIVE (playback_state audio)"
    by auto
  show ?thesis
  proof (cases "data_frames audio nbytes \<noteq> periodFrames (playback_spiceData audio)
                \<and> \<not> snd (playbackData_alloc F (env_mallocIn env) (env_mallocOut env)
                       (data_frames audio nbytes) (playback_stride audio)
                       (playback_spiceData audio))")
    case True
    with ret g show ?thesis
      unfolding audio_playbackData_def data_frames_def
      by (simp add: Let_def split: if_splits)
  next
    case False
    show ?thesis
    proof (cases "data_frames audio nbytes = periodFrames (playback_spiceData audio)")
      case True
      from ret g True obtain q where q: "playback_deviceTiming audio = Some q"
        unfolding audio_playbackData_def data_frames_def
        by (auto simp: Let_def split: if_splits option.splits)
      from ret g True q show ?thesis
        unfolding audio_playbackData_def data_frames_def
        by (auto simp: Let_def and_then_Inr_iff split: if_splits)
    next
      case chg: False
      with False have m: "env_mallocIn env" "env_mallocOut env"
        by (auto simp: playbackData_alloc_def Let_def split: if_splits)
      have ds: "data_scratch F audio nbytes = fst (playbackData_alloc F True True
                       (data_frames audio nbytes) (playback_stride audio)
                       (playback_spiceData audio))"
        using chg by (simp add: data_scratch_def)
      from audio_playbackData_accepted[OF g m ret, unfolded ds] g show ?thesis
        by blast
    qed
  qed
qed

subsection \<open>Data arriving outside an active stream\<close>

text \<open>
  C7. A call of \<^verbatim>\<open>audio_playbackData\<close> while the stream state is STOP or DRAIN returns
  the engine state as it was: the stream state, the coupling buffer, the tick queue, the
  clock tracker, the offset filter, the rate controller and the record of calls to the
  backend and the resampler are all unchanged, so nothing is appended for the sink.
\<close>

theorem audio_playbackData_inactive_dropped:
  "playback_state audio = STREAM_STATE_STOP \<or> playback_state audio = STREAM_STATE_DRAIN
   \<Longrightarrow> audio_playbackData F env nbytes audio = Inr audio"
  by (auto simp: audio_playbackData_def STREAM_ACTIVE_def)

theorem audio_playbackData_inactive_dropped_witness:
  "audio_playbackData real_fpu
     \<lparr> env_now = 5, env_mallocIn = True, env_mallocOut = True,
       env_resampler = [SrcResult 0 10 10], env_latency = 0 \<rparr> 40
     ((audio_zero real_fpu)\<lparr>audioDev := Some ex_dev, playback_state := STREAM_STATE_DRAIN,
        playback_channels := 2, playback_buffer := Some [Append (Some ()) 7]\<rparr>)
   = Inr ((audio_zero real_fpu)\<lparr>audioDev := Some ex_dev, playback_state := STREAM_STATE_DRAIN,
        playback_channels := 2, playback_buffer := Some [Append (Some ()) 7]\<rparr>)"
  using audio_playbackData_inactive_dropped
    [of "(audio_zero real_fpu)\<lparr>audioDev := Some ex_dev, playback_state := STREAM_STATE_DRAIN,
        playback_channels := 2, playback_buffer := Some [Append (Some ()) 7]\<rparr>" real_fpu]
  by simp

subsection \<open>A pull of zero frames\<close>

text \<open>
  C10. \<^verbatim>\<open>playbackPullFrames\<close> called with \<^verbatim>\<open>frames == 0\<close> returns 0 and leaves the whole
  engine state as it was, in every state: nothing is consumed from the coupling buffer, no
  tick is pushed, the device clock is unchanged, and the stream is not stopped even when
  it is in DRAIN with an empty buffer.
\<close>

theorem playbackPullFrames_zero_frames:
  "playbackPullFrames F now dst 0 audio = Inr (audio, 0)"
  by (simp add: playbackPullFrames_def)

subsection \<open>The record stream is started with the playback volume and mute\<close>

text \<open>
  C9. The claim is that \<^verbatim>\<open>audio_recordStart\<close> passes the volume vector cached by
  \<^verbatim>\<open>audio_recordVolume\<close> to \<^verbatim>\<open>record.volume\<close> and the mute flag cached by
  \<^verbatim>\<open>audio_recordMute\<close> to \<^verbatim>\<open>record.mute\<close>. The code tests
  \<^verbatim>\<open>audio.record.volumeChannels\<close> and then passes \<^verbatim>\<open>audio.playback.volumeChannels\<close>,
  \<^verbatim>\<open>audio.playback.volume\<close> and \<^verbatim>\<open>audio.playback.mute\<close> (lines 671-678). After a
  record volume of two channels (100, 200) and a record mute are cached, the record stream
  is started with zero channels of the never set playback volume and unmuted, while the
  record cache still holds what was set.
\<close>

theorem audio_recordStart_applies_playback_cache:
  "map_sum id
     (\<lambda>audio. (trace audio, record_volumeChannels audio, record_volume audio, record_mute audio))
     (run real_fpu
        [Init [(True, ex_dev)], RecordVolumeCall 2 [100, 200], RecordMuteCall True,
         RecordStartCall 2 48000]
        (audio_zero real_fpu))
   = Inr ([RecordStart 2 48000, RecordVolume 0 [0, 0, 0, 0, 0, 0, 0, 0], RecordMute False],
          2, [100, 200, 0, 0, 0, 0, 0, 0], True)"
  by (simp add: audio_zero_def ex_dev_def audio_recordVolume_def audio_recordMute_def
      audio_recordStart_def volume_channels_def volume_store_def call_def Let_def
      numeral_eq_Suc)

subsection \<open>The resample ratio\<close>



subsection \<open>Every accepted period is resampled to the end\<close>




subsection \<open>The target latency\<close>




subsection \<open>Slew on a large clock error\<close>







end
